theory Spec2Isabelle
  imports Main
begin

section \<open>JavaScript values used by the client\<close>

text \<open>
  Strings are lists of characters, a character standing for a code unit below 256. A
  JavaScript string is truthy exactly when it is not
  empty; \<^verbatim>\<open>null\<close> and \<^verbatim>\<open>undefined\<close> are falsy, so an optional string is truthy
  when it is present and not empty.
\<close>

definition truthy :: "string option \<Rightarrow> bool" where
  "truthy v = (case v of None \<Rightarrow> False | Some s \<Rightarrow> s \<noteq> [])"

text \<open>\<^verbatim>\<open>a || b\<close> on an optional string and a string fallback.\<close>

definition or_else :: "string option \<Rightarrow> string \<Rightarrow> string" where
  "or_else v fallback = (case v of None \<Rightarrow> fallback | Some s \<Rightarrow> if s \<noteq> [] then s else fallback)"

text \<open>
  \<^verbatim>\<open>String.prototype.trim\<close> strips white space and line terminators from both ends.
  Within the code points below 256 these are U+0009 to U+000D, U+0020 and U+00A0.
\<close>

definition is_ws :: "char \<Rightarrow> bool" where
  "is_ws c = (of_char c \<in> {9::nat, 10, 11, 12, 13, 32, 160})"

definition trim :: "string \<Rightarrow> string" where
  "trim s = rev (dropWhile is_ws (rev (dropWhile is_ws s)))"

text \<open>Decimal rendering of a number, as a template literal prints it.\<close>

fun decimal :: "nat \<Rightarrow> string" where
  "decimal n = (if n < 10 then [char_of (48 + n)] else decimal (n div 10) @ [char_of (48 + n mod 10)])"

declare decimal.simps [simp del]

text \<open>
  A value typed \<^verbatim>\<open>any\<close>. The handlers read the \<^verbatim>\<open>detail\<close> of an error body without
  checking its type: FastAPI sends a string with an \<^verbatim>\<open>HTTPException\<close> and a list of
  objects with a validation error (status 422). A value that is not a string is described
  by what the code can observe of it: whether it is truthy, the text React shows when it
  is rendered as a child (\<open>None\<close> when React throws, as it does for an object or for an
  array that holds one), and the text \<^verbatim>\<open>String(v)\<close>, a template literal and \<^verbatim>\<open>alert\<close>
  make of it.
\<close>

datatype js_value = JsString string | JsOther bool "string option" string

fun js_truthy :: "js_value \<Rightarrow> bool" where
  "js_truthy (JsString s) = (s \<noteq> [])"
| "js_truthy (JsOther t c x) = t"

fun js_child :: "js_value \<Rightarrow> string option" where
  "js_child (JsString s) = Some s"
| "js_child (JsOther t c x) = c"

fun js_text :: "js_value \<Rightarrow> string" where
  "js_text (JsString s) = s"
| "js_text (JsOther t c x) = x"

text \<open>\<^verbatim>\<open>a || b\<close> where \<open>a\<close> may be undefined.\<close>

definition js_or :: "js_value option \<Rightarrow> js_value \<Rightarrow> js_value" where
  "js_or a b = (case a of None \<Rightarrow> b | Some v \<Rightarrow> if js_truthy v then v else b)"

text \<open>
  \<^verbatim>\<open>{error && <div>...{error}...</div>}\<close>: nothing for a falsy value, the panel with the
  value's text for a truthy one, and an exception out of the render when React cannot show
  the value.
\<close>

datatype panel = NoPanel | Panel string | RenderThrows

definition render_panel :: "js_value \<Rightarrow> panel" where
  "render_panel v =
     (if js_truthy v then (case js_child v of Some s \<Rightarrow> Panel s | None \<Rightarrow> RenderThrows)
      else NoPanel)"

section \<open>The browser: local storage and the window location\<close>

type_synonym storage = "string \<rightharpoonup> string"

definition getItem :: "storage \<Rightarrow> string \<Rightarrow> string option" where
  "getItem ls k = ls k"

definition setItem :: "storage \<Rightarrow> string \<Rightarrow> string \<Rightarrow> storage" where
  "setItem ls k v = ls(k \<mapsto> v)"

definition removeItem :: "storage \<Rightarrow> string \<Rightarrow> storage" where
  "removeItem ls k = ls(k := None)"

record browser =
  localStorage :: storage
  location_href :: string

section \<open>The axios clients\<close>

datatype http_method = GET | POST | DELETE

text \<open>
  The request configuration an interceptor receives. \<open>cfg_headers\<close> are the headers of
  the request; \<open>cfg_data\<close> is the serialised body, if any.
\<close>

record request_config =
  cfg_method :: http_method
  cfg_url :: string
  cfg_headers :: "string \<rightharpoonup> string"
  cfg_data :: "string option"

text \<open>
  A response as it arrives: status code, the \<^verbatim>\<open>detail\<close> field of its body (FastAPI's
  error field, of any type) when there is one, and the body.
\<close>

record 'a http_response =
  resp_status :: nat
  resp_detail :: "js_value option"
  resp_data :: 'a

text \<open>
  An axios error: \<open>err_response\<close> is \<^verbatim>\<open>error.response\<close>, absent when no response
  arrived (a network failure); \<open>err_message\<close> is \<^verbatim>\<open>error.message\<close>.
\<close>

record error_response =
  er_status :: nat
  er_detail :: "js_value option"

record axios_error =
  err_response :: "error_response option"
  err_message :: string

datatype 'a settled = Fulfilled "'a http_response" | Rejected axios_error

text \<open>
  Neither \<^verbatim>\<open>axios.create\<close> call nor any request passes \<^verbatim>\<open>validateStatus\<close>, so axios
  settles with its default: a status from 200 to 299 fulfils the promise, any other
  status rejects it with an error that carries the response.
\<close>

definition validateStatus :: "nat \<Rightarrow> bool" where
  "validateStatus s = (200 \<le> s \<and> s < 300)"

definition axios_settle :: "'a http_response \<Rightarrow> 'a settled" where
  "axios_settle r =
     (if validateStatus (resp_status r) then Fulfilled r
      else Rejected \<lparr>err_response = Some \<lparr>er_status = resp_status r, er_detail = resp_detail r\<rparr>,
                      err_message = ''Request failed with status code '' @ decimal (resp_status r)\<rparr>)"

subsection \<open>\<^verbatim>\<open>api\<close>: the client of the component front end\<close>

text \<open>
  \<^verbatim>\<open>
  api.interceptors.request.use((config) => {
    const token = localStorage.getItem('token');
    if (token) {
      config.headers.Authorization = `Bearer ${token}`;
    }
    return config;
  });
  \<close>
  No response interceptor is registered on \<^verbatim>\<open>api\<close>.
\<close>

definition api_request_interceptor :: "storage \<Rightarrow> request_config \<Rightarrow> request_config" where
  "api_request_interceptor ls config =
     (case getItem ls ''token'' of
        None \<Rightarrow> config
      | Some token \<Rightarrow>
          if token \<noteq> []
          then config\<lparr>cfg_headers := (cfg_headers config)(''Authorization'' \<mapsto> ''Bearer '' @ token)\<rparr>
          else config)"

definition api_receive :: "'a http_response \<Rightarrow> browser \<Rightarrow> 'a settled \<times> browser" where
  "api_receive r b = (axios_settle r, b)"

subsection \<open>\<^verbatim>\<open>apiClient\<close>: the client of the routed front end\<close>

definition apiClient_request_interceptor :: "storage \<Rightarrow> request_config \<Rightarrow> request_config" where
  "apiClient_request_interceptor ls config =
     (case getItem ls ''token'' of
        None \<Rightarrow> config
      | Some token \<Rightarrow>
          if token \<noteq> []
          then config\<lparr>cfg_headers := (cfg_headers config)(''Authorization'' \<mapsto> ''Bearer '' @ token)\<rparr>
          else config)"

text \<open>
  \<^verbatim>\<open>
  apiClient.interceptors.response.use(
    (response) => response,
    (error) => {
      if (error.response?.status === 401) {
        localStorage.removeItem('token');
        window.location.href = '/login';
      }
      return Promise.reject(error);
    }
  );
  \<close>
\<close>

definition apiClient_on_fulfilled :: "'a http_response \<Rightarrow> browser \<Rightarrow> 'a settled \<times> browser" where
  "apiClient_on_fulfilled response b = (Fulfilled response, b)"

definition apiClient_on_rejected :: "axios_error \<Rightarrow> browser \<Rightarrow> 'a settled \<times> browser" where
  "apiClient_on_rejected error b =
     (Rejected error,
      if map_option er_status (err_response error) = Some 401
      then b\<lparr>localStorage := removeItem (localStorage b) ''token'', location_href := ''/login''\<rparr>
      else b)"

definition apiClient_response_interceptor :: "'a settled \<Rightarrow> browser \<Rightarrow> 'a settled \<times> browser" where
  "apiClient_response_interceptor p b =
     (case p of Fulfilled response \<Rightarrow> apiClient_on_fulfilled response b
              | Rejected error \<Rightarrow> apiClient_on_rejected error b)"

definition apiClient_receive :: "'a http_response \<Rightarrow> browser \<Rightarrow> 'a settled \<times> browser" where
  "apiClient_receive r b = apiClient_response_interceptor (axios_settle r) b"

subsection \<open>What a call gives its caller\<close>

text \<open>
  How a request ends: a response arrives, or none does (a network failure, with axios's
  message). Every service function returns \<^verbatim>\<open>response.data\<close> of the fulfilled promise
  and lets the rejection through, so the caller's \<^verbatim>\<open>await\<close> yields the body or throws
  the axios error: \<open>Inr\<close> the body, \<open>Inl\<close> the error.
\<close>

datatype 'a wire = Arrived "'a http_response" | NoResponse string









section \<open>What a handler does besides updating its component's state\<close>

text \<open>
  A handler's observable actions, in program order: a call made on a client
  (method, URL as passed to the client, the headers passed with the call, and the
  fields of the JSON body), a line
  written with \<^verbatim>\<open>console.log\<close> or \<^verbatim>\<open>console.error\<close> (its first argument), a blocking
  \<^verbatim>\<open>alert\<close> or \<^verbatim>\<open>confirm\<close> dialog, a file handed to the browser for download, and a
  call of the router's \<^verbatim>\<open>navigate\<close>.
\<close>

datatype ui_effect =
    Request http_method string "(string \<times> string) list" "(string \<times> string) list"
  | ConsoleLog string
  | ConsoleError string
  | Alert string
  | Confirm string
  | SaveFile string
  | NavigateTo string

fun is_request :: "ui_effect \<Rightarrow> bool" where
  "is_request (Request m u h d) = True"
| "is_request e = False"

definition requests :: "ui_effect list \<Rightarrow> ui_effect list" where
  "requests effs = filter is_request effs"






text \<open>\<^verbatim>\<open>err.response?.data?.detail\<close>, read from an \<^verbatim>\<open>err\<close> typed \<^verbatim>\<open>any\<close>.\<close>

definition detail :: "axios_error \<Rightarrow> js_value option" where
  "detail err = (case err_response err of None \<Rightarrow> None | Some r \<Rightarrow> er_detail r)"



text \<open>
  A request made with \<^verbatim>\<open>responseType: 'blob'\<close>: the body of an error response is then a
  Blob, which has no \<^verbatim>\<open>detail\<close> property.
\<close>

definition as_blob :: "axios_error \<Rightarrow> axios_error" where
  "as_blob err = err\<lparr>err_response := map_option (\<lambda>r. r\<lparr>er_detail := None\<rparr>) (err_response err)\<rparr>"

section \<open>Component front end: the invoice list (Invoices.tsx)\<close>

record invoice =
  inv_id :: string
  invoice_number :: string
  customer_id :: string
  created_at :: string
  due_date :: string
  total_amount :: int  \<comment> \<open>carried and displayed, never computed with\<close>
  inv_status :: string

text \<open>\<^verbatim>\<open>error\<close> is declared a string and receives whatever \<^verbatim>\<open>setError\<close> is given.\<close>

record invoices_state =
  invoices :: "invoice list"
  inv_loading :: bool
  inv_error :: js_value


text \<open>
  \<^verbatim>\<open>
  const loadInvoices = async () => {
    try {
      setLoading(true);
      const response = await invoiceAPI.list();
      setInvoices(response.invoices || []);
    } catch (err: any) {
      console.error('Error loading invoices:', err);
      setError(err.response?.data?.detail || 'Failed to load invoices');
    } finally {
      setLoading(false);
    }
  };
  \<close>
  The body of a successful list response is its optional \<^verbatim>\<open>invoices\<close> field.
  An async handler runs up to its \<^verbatim>\<open>await\<close> (\<open>_begin\<close>); its continuation
  (\<open>_resume\<close>) runs when the call settles, with the outcome of the call: \<open>Inl\<close> an axios
  error, \<open>Inr\<close> the response body. The handler's own name stands for a run during which
  nothing else touches the component.
\<close>

definition loadInvoices_begin :: "invoices_state \<Rightarrow> invoices_state \<times> ui_effect list" where
  "loadInvoices_begin st = (st\<lparr>inv_loading := True\<rparr>, [Request GET ''/invoices/list'' [] []])"

definition loadInvoices_resume ::
  "axios_error + invoice list option \<Rightarrow> invoices_state \<Rightarrow> invoices_state \<times> ui_effect list" where
  "loadInvoices_resume outcome st =
     (case outcome of
        Inr response \<Rightarrow>
          (st\<lparr>invoices := (case response of None \<Rightarrow> [] | Some l \<Rightarrow> l), inv_loading := False\<rparr>, [])
      | Inl err \<Rightarrow>
          (st\<lparr>inv_error := js_or (detail err) (JsString ''Failed to load invoices''),
              inv_loading := False\<rparr>,
           [ConsoleError ''Error loading invoices:'']))"

definition loadInvoices ::
  "axios_error + invoice list option \<Rightarrow> invoices_state \<Rightarrow> invoices_state \<times> ui_effect list" where
  "loadInvoices outcome st =
     (case loadInvoices_begin st of
        (st1, effs) \<Rightarrow>
          (case loadInvoices_resume outcome st1 of (st2, effs') \<Rightarrow> (st2, effs @ effs')))"

text \<open>The error panel is \<^verbatim>\<open>{error && (<div ...>{error}</div>)}\<close>.\<close>

definition inv_error_panel :: "invoices_state \<Rightarrow> panel" where
  "inv_error_panel st = render_panel (inv_error st)"

text \<open>
  \<^verbatim>\<open>
  const handleDownload = async (invoiceId: string, invoiceNumber: string) => {
    try {
      await invoiceAPI.downloadPDF(invoiceId, invoiceNumber);
    } catch (err: any) {
      console.error('Error downloading invoice:', err);
      alert(err.response?.data?.detail || 'Failed to download invoice');
    }
  };
  \<close>
  \<^verbatim>\<open>invoiceAPI.downloadPDF\<close> requests \<^verbatim>\<open>/invoices/${id}/download\<close> with
  \<^verbatim>\<open>responseType: 'blob'\<close> and saves the body as \<^verbatim>\<open>invoice_${id}.pdf\<close>. The error of
  such a request has a Blob for its body, so the alert always shows the fallback text.
\<close>

definition handleDownload_begin ::
  "string \<Rightarrow> string \<Rightarrow> invoices_state \<Rightarrow> invoices_state \<times> ui_effect list" where
  "handleDownload_begin invoiceId invoiceNumber st =
     (st, [Request GET (''/invoices/'' @ invoiceId @ ''/download'') [] []])"

definition handleDownload_resume ::
  "string \<Rightarrow> axios_error + unit \<Rightarrow> invoices_state \<Rightarrow> invoices_state \<times> ui_effect list" where
  "handleDownload_resume invoiceId outcome st =
     (case outcome of
        Inr u \<Rightarrow> (st, [SaveFile (''invoice_'' @ invoiceId @ ''.pdf'')])
      | Inl err \<Rightarrow>
          (st, [ConsoleError ''Error downloading invoice:'',
                Alert (js_text (js_or (detail (as_blob err)) (JsString ''Failed to download invoice'')))]))"

definition handleDownload ::
  "string \<Rightarrow> string \<Rightarrow> axios_error + unit \<Rightarrow> invoices_state \<Rightarrow> invoices_state \<times> ui_effect list" where
  "handleDownload invoiceId invoiceNumber outcome st =
     (case handleDownload_begin invoiceId invoiceNumber st of
        (st1, effs) \<Rightarrow>
          (case handleDownload_resume invoiceId outcome st1 of (st2, effs') \<Rightarrow> (st2, effs @ effs')))"

text \<open>
  \<^verbatim>\<open>
  const handleDelete = async (id: string) => {
    if (!confirm('Are you sure you want to delete this invoice?')) return;
    try {
      await invoiceAPI.delete(id);
      setInvoices(invoices.filter((inv) => inv.id !== id));
    } catch (err: any) {
      console.error('Error deleting invoice:', err);
      alert(err.response?.data?.detail || 'Failed to delete invoice');
    }
  };
  \<close>
  The handler is an async function: it runs up to the \<^verbatim>\<open>await\<close>, and its continuation
  runs when the request settles. \<^verbatim>\<open>invoices\<close> in the continuation is the list of the
  render whose button was pressed, captured with \<^verbatim>\<open>id\<close> (here \<open>ident\<close>) in the closure; the state
  the continuation updates is the component's state at that later moment.
\<close>

record delete_closure =
  dc_invoices :: "invoice list"
  dc_id :: string

definition handleDelete_begin ::
  "bool \<Rightarrow> string \<Rightarrow> invoices_state \<Rightarrow> delete_closure option \<times> ui_effect list" where
  "handleDelete_begin confirmed ident st =
     (if \<not> confirmed then (None, [Confirm ''Are you sure you want to delete this invoice?''])
      else (Some \<lparr>dc_invoices = invoices st, dc_id = ident\<rparr>,
            [Confirm ''Are you sure you want to delete this invoice?'',
             Request DELETE (''/invoices/'' @ ident) [] []]))"

definition handleDelete_resume ::
  "delete_closure \<Rightarrow> axios_error + unit \<Rightarrow> invoices_state \<Rightarrow> invoices_state \<times> ui_effect list" where
  "handleDelete_resume c outcome st =
     (case outcome of
        Inr u \<Rightarrow> (st\<lparr>invoices := filter (\<lambda>inv. inv_id inv \<noteq> dc_id c) (dc_invoices c)\<rparr>, [])
      | Inl err \<Rightarrow>
          (st, [ConsoleError ''Error deleting invoice:'',
                Alert (js_text (js_or (detail err) (JsString ''Failed to delete invoice'')))]))"

text \<open>A run of \<^verbatim>\<open>handleDelete\<close> during which nothing else touches the component.\<close>

definition handleDelete ::
  "bool \<Rightarrow> string \<Rightarrow> axios_error + unit \<Rightarrow> invoices_state \<Rightarrow> invoices_state \<times> ui_effect list" where
  "handleDelete confirmed ident outcome st =
     (case handleDelete_begin confirmed ident st of
        (None, effs) \<Rightarrow> (st, effs)
      | (Some c, effs) \<Rightarrow>
          (case handleDelete_resume c outcome st of (st', effs') \<Rightarrow> (st', effs @ effs')))"


section \<open>Component front end: the chat (Dashboard.tsx)\<close>

datatype role = User | Assistant

record chat_message =
  msg_role :: role
  msg_content :: string
  msg_timestamp :: "string option"

record chat_state =
  messages :: "chat_message list"
  inputMessage :: string
  chat_loading :: bool


text \<open>The body of a chat response: the fields the handler reads.\<close>

record chat_response =
  cr_response :: "string option"
  cr_reply :: "string option"

text \<open>
  \<^verbatim>\<open>
  const handleSendMessage = async (e: React.FormEvent) => {
    e.preventDefault();
    if (!inputMessage.trim() || loading) return;
    const userMessage = { role: 'user', content: inputMessage, timestamp: new Date().toISOString() };
    setMessages((prev) => [...prev, userMessage]);
    setInputMessage('');
    setLoading(true);
    try {
      const response = await chatAPI.sendQuery(inputMessage);
      console.log('Chat API Response:', response);
      console.log('Response content:', response.response);
      const assistantMessage = { role: 'assistant',
        content: response.response || response.reply || 'No response received',
        timestamp: new Date().toISOString() };
      console.log('Assistant message:', assistantMessage);
      setMessages((prev) => [...prev, assistantMessage]);
    } catch (error: any) {
      console.error('Chat error:', error);
      const errorMessage = { role: 'assistant',
        content: `Sorry, I encountered an error: ${error.response?.data?.detail || error.message || 'Please try again.'}`,
        timestamp: new Date().toISOString() };
      setMessages((prev) => [...prev, errorMessage]);
    } finally {
      setLoading(false);
    }
  };
  \<close>
  \<open>now\<close> is the clock reading \<^verbatim>\<open>new Date().toISOString()\<close>. The part before the
  \<^verbatim>\<open>await\<close> returns the request it issued, if it issued one; the continuation
  updates the state it finds (the setters take functions of the previous state).
\<close>

definition handleSendMessage_begin :: "string \<Rightarrow> chat_state \<Rightarrow> chat_state \<times> ui_effect list" where
  "handleSendMessage_begin now st =
     (if trim (inputMessage st) = [] \<or> chat_loading st then (st, [])
      else (st\<lparr>messages := messages st @
                   [\<lparr>msg_role = User, msg_content = inputMessage st, msg_timestamp = Some now\<rparr>],
               inputMessage := [],
               chat_loading := True\<rparr>,
            [Request POST ''/chat/query'' [] [(''query'', inputMessage st)]]))"

definition handleSendMessage_resume ::
  "string \<Rightarrow> axios_error + chat_response \<Rightarrow> chat_state \<Rightarrow> chat_state \<times> ui_effect list" where
  "handleSendMessage_resume now outcome st =
     (case outcome of
        Inr response \<Rightarrow>
          (st\<lparr>messages := messages st @
                 [\<lparr>msg_role = Assistant,
                   msg_content = or_else (cr_response response)
                                   (or_else (cr_reply response) ''No response received''),
                   msg_timestamp = Some now\<rparr>],
              chat_loading := False\<rparr>,
           [ConsoleLog ''Chat API Response:'', ConsoleLog ''Response content:'',
            ConsoleLog ''Assistant message:''])
      | Inl error \<Rightarrow>
          (st\<lparr>messages := messages st @
                 [\<lparr>msg_role = Assistant,
                   msg_content = ''Sorry, I encountered an error: '' @
                                 js_text (js_or (detail error)
                                   (JsString (or_else (Some (err_message error)) ''Please try again.''))),
                   msg_timestamp = Some now\<rparr>],
              chat_loading := False\<rparr>,
           [ConsoleError ''Chat error:'']))"

text \<open>A run of \<^verbatim>\<open>handleSendMessage\<close> during which nothing else touches the component.\<close>

definition handleSendMessage ::
  "string \<Rightarrow> string \<Rightarrow> axios_error + chat_response \<Rightarrow> chat_state \<Rightarrow> chat_state \<times> ui_effect list" where
  "handleSendMessage now1 now2 outcome st =
     (case handleSendMessage_begin now1 st of
        (st1, []) \<Rightarrow> (st1, [])
      | (st1, req # effs) \<Rightarrow>
          (case handleSendMessage_resume now2 outcome st1 of
             (st2, effs') \<Rightarrow> (st2, req # effs @ effs')))"

section \<open>Component front end: GST verification (GSTCompliance.tsx)\<close>

record gst_response =
  gr_gstin :: string
  legal_name :: string
  trade_name :: "string option"
  gr_status :: string
  gr_state :: string
  address :: "string option"
  verified :: bool

record gst_state =
  gstin :: string
  gst_loading :: bool
  gst_result :: "gst_response option"
  gst_error :: js_value

definition gst_init :: gst_state where
  "gst_init = \<lparr>gstin = [], gst_loading = False, gst_result = None, gst_error = JsString []\<rparr>"

text \<open>
  \<^verbatim>\<open>
  const handleVerify = async (e: React.FormEvent) => {
    e.preventDefault();
    if (!gstin.trim()) return;
    setLoading(true);
    setError('');
    setResult(null);
    try {
      const response = await gstAPI.verify(gstin);
      setResult(response);
    } catch (err: any) {
      setError(err.response?.data?.detail || 'Failed to verify GST number');
    } finally {
      setLoading(false);
    }
  };
  \<close>
  \<^verbatim>\<open>gstAPI.verify\<close> is \<^verbatim>\<open>api.get(`/gst/verify?gstin=${gstin}`)\<close>.
\<close>

definition handleVerify_begin :: "gst_state \<Rightarrow> gst_state \<times> ui_effect list" where
  "handleVerify_begin st =
     (if trim (gstin st) = [] then (st, [])
      else (st\<lparr>gst_loading := True, gst_error := JsString [], gst_result := None\<rparr>,
            [Request GET (''/gst/verify?gstin='' @ gstin st) [] []]))"

definition handleVerify_resume ::
  "axios_error + gst_response \<Rightarrow> gst_state \<Rightarrow> gst_state \<times> ui_effect list" where
  "handleVerify_resume outcome st =
     (case outcome of
        Inr response \<Rightarrow> (st\<lparr>gst_result := Some response, gst_loading := False\<rparr>, [])
      | Inl err \<Rightarrow>
          (st\<lparr>gst_error := js_or (detail err) (JsString ''Failed to verify GST number''),
              gst_loading := False\<rparr>, []))"

definition handleVerify ::
  "axios_error + gst_response \<Rightarrow> gst_state \<Rightarrow> gst_state \<times> ui_effect list" where
  "handleVerify outcome st =
     (case handleVerify_begin st of
        (st1, []) \<Rightarrow> (st1, [])
      | (st1, req # effs) \<Rightarrow>
          (case handleVerify_resume outcome st1 of
             (st2, effs') \<Rightarrow> (st2, req # effs @ effs')))"

text \<open>
  The form as rendered: the input is \<^verbatim>\<open>disabled={loading}\<close> and its \<^verbatim>\<open>onChange\<close> stores
  the upper-cased value; the submit button is \<^verbatim>\<open>disabled={loading || !gstin.trim()}\<close>.
  \<open>gst_reachable st n\<close>: the component can be in state \<open>st\<close> with \<open>n\<close> verification
  requests in flight.
\<close>

definition gst_input_disabled :: "gst_state \<Rightarrow> bool" where
  "gst_input_disabled st = gst_loading st"

definition gst_button_disabled :: "gst_state \<Rightarrow> bool" where
  "gst_button_disabled st = (gst_loading st \<or> trim (gstin st) = [])"

definition setGstin :: "string \<Rightarrow> gst_state \<Rightarrow> gst_state" where
  "setGstin v st = st\<lparr>gstin := v\<rparr>"

inductive gst_reachable :: "gst_state \<Rightarrow> nat \<Rightarrow> bool" where
  mount: "gst_reachable gst_init 0"
| change: "gst_reachable st n \<Longrightarrow> \<not> gst_input_disabled st \<Longrightarrow> gst_reachable (setGstin v st) n"
| submit: "gst_reachable st n \<Longrightarrow> \<not> gst_button_disabled st \<Longrightarrow>
           gst_reachable (fst (handleVerify_begin st)) (n + length (snd (handleVerify_begin st)))"
| settle: "gst_reachable st (Suc n) \<Longrightarrow> gst_reachable (fst (handleVerify_resume outcome st)) n"

text \<open>The error panel is \<^verbatim>\<open>{error && (<div ...>...{error}</div>)}\<close>.\<close>

definition gst_error_panel :: "gst_state \<Rightarrow> panel" where
  "gst_error_panel st = render_panel (gst_error st)"

section \<open>Component front end: the analytics screen (DashboardAnalytics.tsx)\<close>

text \<open>The statistics are displayed as received; their type is left open.\<close>

record 'a analytics_state =
  stats :: "'a option"
  an_loading :: bool
  an_error :: "js_value option"

definition analytics_init :: "'a analytics_state" where
  "analytics_init = \<lparr>stats = None, an_loading = True, an_error = None\<rparr>"

text \<open>A template literal prints \<^verbatim>\<open>null\<close> as the text \<^verbatim>\<open>null\<close>.\<close>

definition template :: "string option \<Rightarrow> string" where
  "template v = (case v of None \<Rightarrow> ''null'' | Some s \<Rightarrow> s)"

text \<open>
  \<^verbatim>\<open>
  const fetchDashboardData = async () => {
    try {
      setLoading(true);
      setError(null);
      console.log('Fetching dashboard overview...');
      const token = localStorage.getItem('token');
      const response = await axios.get('http://localhost:8000/api/dashboard/overview', {
        headers: { 'Authorization': `Bearer ${token}`, 'Content-Type': 'application/json' },
      });
      console.log('Dashboard data received:', response.data);
      setStats(response.data);
    } catch (err: any) {
      console.error('Error fetching dashboard data:', err);
      const errorMsg = err.response?.data?.detail || err.message || 'Failed to load dashboard data';
      console.error('Error details:', errorMsg);
      setError(errorMsg);
    } finally {
      setLoading(false);
    }
  };
  \<close>
  This call goes through axios itself, not through a client.
\<close>

definition fetchDashboardData_begin ::
  "storage \<Rightarrow> 'a analytics_state \<Rightarrow> 'a analytics_state \<times> ui_effect list" where
  "fetchDashboardData_begin ls st =
     (let token = getItem ls ''token'' in
      (st\<lparr>an_loading := True, an_error := None\<rparr>,
       [ConsoleLog ''Fetching dashboard overview...'',
        Request GET ''http://localhost:8000/api/dashboard/overview''
          [(''Authorization'', ''Bearer '' @ template token),
           (''Content-Type'', ''application/json'')] []]))"

definition fetchDashboardData_resume ::
  "axios_error + 'a \<Rightarrow> 'a analytics_state \<Rightarrow> 'a analytics_state \<times> ui_effect list" where
  "fetchDashboardData_resume outcome st =
     (case outcome of
        Inr data \<Rightarrow>
          (st\<lparr>stats := Some data, an_loading := False\<rparr>, [ConsoleLog ''Dashboard data received:''])
      | Inl err \<Rightarrow>
          (let errorMsg = js_or (detail err)
                            (JsString (or_else (Some (err_message err)) ''Failed to load dashboard data''))
           in (st\<lparr>an_error := Some errorMsg, an_loading := False\<rparr>,
               [ConsoleError ''Error fetching dashboard data:'', ConsoleError ''Error details:''])))"

definition fetchDashboardData ::
  "storage \<Rightarrow> axios_error + 'a \<Rightarrow> 'a analytics_state \<Rightarrow> 'a analytics_state \<times> ui_effect list" where
  "fetchDashboardData ls outcome st =
     (case fetchDashboardData_begin ls st of
        (st1, effs) \<Rightarrow>
          (case fetchDashboardData_resume outcome st1 of (st2, effs') \<Rightarrow> (st2, effs @ effs')))"

text \<open>
  The screen shows the spinner while loading; otherwise, when \<^verbatim>\<open>error\<close> is truthy, the
  error text \<^verbatim>\<open><p ...>{error}</p>\<close> with a Retry button.
\<close>

definition an_error_panel :: "'a analytics_state \<Rightarrow> panel" where
  "an_error_panel st =
     (if an_loading st then NoPanel
      else (case an_error st of None \<Rightarrow> NoPanel | Some v \<Rightarrow> render_panel v))"

section \<open>Routed front end: the pages\<close>







text \<open>pages/Dashboard: overview and insights, fetched together.\<close>

record ('o, 'i) pages_dashboard_state =
  overview :: "'o option"
  insights :: "'i list"
  pd_loading :: bool






section \<open>The two application shells\<close>

subsection \<open>Component front end (App.tsx)\<close>

datatype screen =
  AI_COPILOT | DASHBOARD | INVOICES | GST | SUPPLIER_FINDER | EXPENSE_TRACKER | INVENTORY | REPORTS

record app_state =
  activeScreen :: screen
  isAuthenticated :: bool
  showRegister :: bool



definition handleLogin :: "string \<Rightarrow> browser \<Rightarrow> app_state \<Rightarrow> browser \<times> app_state" where
  "handleLogin token b st =
     (b\<lparr>localStorage := setItem (localStorage b) ''token'' token\<rparr>, st\<lparr>isAuthenticated := True\<rparr>)"

definition handleLogout :: "browser \<Rightarrow> app_state \<Rightarrow> browser \<times> app_state" where
  "handleLogout b st =
     (b\<lparr>localStorage := removeItem (localStorage b) ''token''\<rparr>,
      st\<lparr>isAuthenticated := False, activeScreen := AI_COPILOT\<rparr>)"




subsection \<open>Routed front end (App.tsx)\<close>

text \<open>
  \<^verbatim>\<open>
  const [isAuthenticated, setIsAuthenticated] = React.useState(false);
  const checkAuth = React.useCallback(() => {
    const token = localStorage.getItem('token');
    setIsAuthenticated(!!token);
  }, []);
  React.useEffect(() => {
    checkAuth();
    const handleStorageChange = () => { checkAuth(); };
    window.addEventListener('storage', handleStorageChange);
    window.addEventListener('authChange', handleStorageChange);
    return () => { ... };
  }, [checkAuth]);
  \<close>
  The state of the shell is the flag and, held by the router, the path.
\<close>

record router_state =
  rt_isAuthenticated :: bool
  rt_path :: string

definition checkAuth :: "storage \<Rightarrow> router_state \<Rightarrow> router_state" where
  "checkAuth ls st = (let token = getItem ls ''token'' in st\<lparr>rt_isAuthenticated := truthy token\<rparr>)"

datatype route_element =
  LandingPage | LoginPage | RegisterPage | DashboardPage | InvoicesPage | ChatPage
  | Navigate string | NoMatch

text \<open>The element the routes give for a path, by the flag of the render.\<close>

definition route :: "router_state \<Rightarrow> string \<Rightarrow> route_element" where
  "route st path =
     (if path = ''/'' then LandingPage
      else if path = ''/login'' then LoginPage
      else if path = ''/register'' then RegisterPage
      else if path = ''/dashboard'' then (if rt_isAuthenticated st then DashboardPage else Navigate ''/login'')
      else if path = ''/invoices'' then (if rt_isAuthenticated st then InvoicesPage else Navigate ''/login'')
      else if path = ''/chat'' then (if rt_isAuthenticated st then ChatPage else Navigate ''/login'')
      else NoMatch)"

definition rendered :: "router_state \<Rightarrow> route_element" where
  "rendered st = route st (rt_path st)"

text \<open>A rendered \<^verbatim>\<open><Navigate to=...>\<close> changes the path in its effect.\<close>

definition follow_navigate :: "router_state \<Rightarrow> router_state" where
  "follow_navigate st = (case rendered st of Navigate target \<Rightarrow> st\<lparr>rt_path := target\<rparr> | e \<Rightarrow> st)"

text \<open>
  Opening the application at a path: the first render has the flag of
  \<^verbatim>\<open>useState(false)\<close>, so a protected route renders \<^verbatim>\<open><Navigate to="/login">\<close>; the
  effects of that render then run, the redirect and \<^verbatim>\<open>checkAuth\<close>.
\<close>

definition router_first_render :: "string \<Rightarrow> router_state" where
  "router_first_render path = \<lparr>rt_isAuthenticated = False, rt_path = path\<rparr>"

definition router_mount :: "storage \<Rightarrow> string \<Rightarrow> router_state" where
  "router_mount ls path = checkAuth ls (follow_navigate (router_first_render path))"







section \<open>The components as reactive systems\<close>

text \<open>
  A mounted component reacts to what its JSX and its effects register: the user's actions
  on its buttons, inputs and forms, and the settling of the calls it has in flight. Its
  \<open>_mount\<close> is the first render with its \<^verbatim>\<open>useEffect(..., [])\<close>; its \<open>_step\<close> is the
  reaction to one event, with the actions the reaction performs. The world of a component
  is its state, the continuations waiting for a call to settle, and the browser. No
  component of the source sets a timer, and only the routed shell adds a listener.
\<close>

fun run :: "('e \<Rightarrow> 'w \<Rightarrow> 'w \<times> ui_effect list) \<Rightarrow> 'e list \<Rightarrow> 'w \<Rightarrow> 'w \<times> ui_effect list" where
  "run step [] w = (w, [])"
| "run step (e # es) w =
     (case step e w of
        (w1, effs) \<Rightarrow> (case run step es w1 of (w2, effs') \<Rightarrow> (w2, effs @ effs')))"



subsection \<open>Invoices (component front end)\<close>








subsection \<open>Chat (component front end)\<close>






subsection \<open>GST verification (component front end)\<close>






subsection \<open>Analytics (component front end)\<close>






subsection \<open>pages/Invoices (routed front end)\<close>


datatype 'a pi_event =
    ClickPDF string string
  | PIFetchSettled "'a list option wire"
  | PIDownloadSettled "axios_error + unit"

fun pi_user :: "'a pi_event \<Rightarrow> bool" where
  "pi_user (ClickPDF invoiceId invoiceNumber) = True"
| "pi_user e = False"




subsection \<open>pages/Dashboard (routed front end)\<close>


datatype ('o, 'i) pd_event = ClickQuickAction string | PDSettled "'o wire" "'i list option wire"

fun pd_user :: "('o, 'i) pd_event \<Rightarrow> bool" where
  "pd_user (ClickQuickAction path) = True"
| "pd_user e = False"



section \<open>What a URL carries as its query parameters\<close>

text \<open>
  \<^verbatim>\<open>gstAPI.verify\<close> builds its URL by interpolation, with no encoding, so what the request
  carries as the \<^verbatim>\<open>gstin\<close> parameter is what a URL parser makes of that text. The URL
  standard's parser removes leading and trailing control characters and spaces, then tabs
  and newlines anywhere; the fragment starts at the first \<^verbatim>\<open>#\<close> and is not sent; the
  query is what follows the first \<^verbatim>\<open>?\<close>. The query is split at \<^verbatim>\<open>&\<close>, each part at its
  first \<^verbatim>\<open>=\<close>, and in names and values \<^verbatim>\<open>+\<close> stands for a space and \<^verbatim>\<open>%XX\<close> for the
  byte with that code (decoded here byte by byte). The characters a browser escapes on
  the way are restored by the same decoding.
\<close>

definition c0_or_space :: "char \<Rightarrow> bool" where
  "c0_or_space c = (of_char c \<le> (32::nat))"

definition tab_or_newline :: "char \<Rightarrow> bool" where
  "tab_or_newline c = (of_char c \<in> {9::nat, 10, 13})"

definition url_clean :: "string \<Rightarrow> string" where
  "url_clean u =
     filter (\<lambda>c. \<not> tab_or_newline c) (rev (dropWhile c0_or_space (rev (dropWhile c0_or_space u))))"

definition url_query :: "string \<Rightarrow> string" where
  "url_query u =
     (case dropWhile (\<lambda>c. c \<noteq> CHR ''?'') (takeWhile (\<lambda>c. c \<noteq> CHR ''#'') u) of
        [] \<Rightarrow> []
      | q # rest \<Rightarrow> rest)"

fun split_on :: "char \<Rightarrow> string \<Rightarrow> string list" where
  "split_on sep [] = [[]]"
| "split_on sep (c # cs) =
     (if c = sep then [] # split_on sep cs
      else (case split_on sep cs of [] \<Rightarrow> [[c]] | p # ps \<Rightarrow> (c # p) # ps))"

definition hex_digit :: "char \<Rightarrow> nat option" where
  "hex_digit c =
     (let n = of_char c :: nat in
      if 48 \<le> n \<and> n \<le> 57 then Some (n - 48)
      else if 65 \<le> n \<and> n \<le> 70 then Some (n - 55)
      else if 97 \<le> n \<and> n \<le> 102 then Some (n - 87)
      else None)"

fun form_decode :: "string \<Rightarrow> string" where
  "form_decode [] = []"
| "form_decode (c # cs) =
     (if c = CHR ''+'' then CHR '' '' # form_decode cs
      else if c = CHR ''%'' then
        (case cs of
           h # l # rest \<Rightarrow>
             (case (hex_digit h, hex_digit l) of
                (Some a, Some b) \<Rightarrow> char_of (16 * a + b) # form_decode rest
              | other \<Rightarrow> c # form_decode cs)
         | short \<Rightarrow> c # form_decode cs)
      else c # form_decode cs)"

definition query_pair :: "string \<Rightarrow> string \<times> string" where
  "query_pair p =
     (form_decode (takeWhile (\<lambda>c. c \<noteq> CHR ''='') p),
      form_decode (drop 1 (dropWhile (\<lambda>c. c \<noteq> CHR ''='') p)))"

definition query_params :: "string \<Rightarrow> (string \<times> string) list" where
  "query_params u =
     map query_pair (filter (\<lambda>p. p \<noteq> []) (split_on (CHR ''&'') (url_query (url_clean u))))"

text \<open>
  The characters that mean nothing to a URL and are never escaped: letters, digits,
  \<^verbatim>\<open>-\<close>, \<^verbatim>\<open>.\<close>, \<^verbatim>\<open>_\<close> and \<^verbatim>\<open>~\<close>. A GSTIN is made of letters and digits.
\<close>

definition unreserved :: "char \<Rightarrow> bool" where
  "unreserved c =
     (let n = of_char c :: nat in
      (48 \<le> n \<and> n \<le> 57) \<or> (65 \<le> n \<and> n \<le> 90) \<or> (97 \<le> n \<and> n \<le> 122)
      \<or> n = 45 \<or> n = 46 \<or> n = 95 \<or> n = 126)"

section \<open>Inputs used as examples\<close>

definition cfg0 :: request_config where
  "cfg0 = \<lparr>cfg_method = GET, cfg_url = ''/invoices/list'',
           cfg_headers = [''Content-Type'' \<mapsto> ''application/json''], cfg_data = None\<rparr>"

definition network_error :: axios_error where
  "network_error = \<lparr>err_response = None, err_message = ''Network Error''\<rparr>"

text \<open>The error of a FastAPI validation failure: its detail is a list of objects.\<close>

definition validation_error :: axios_error where
  "validation_error =
     \<lparr>err_response = Some \<lparr>er_status = 422, er_detail = Some (JsOther True None ''[object Object]'')\<rparr>,
      err_message = ''Request failed with status code 422''\<rparr>"

definition inv_a :: invoice where
  "inv_a = \<lparr>inv_id = ''a'', invoice_number = ''INV-001'', customer_id = ''c1'',
            created_at = ''2025-01-01'', due_date = ''2025-02-01'', total_amount = 5000,
            inv_status = ''pending''\<rparr>"

definition inv_b :: invoice where
  "inv_b = \<lparr>inv_id = ''b'', invoice_number = ''INV-002'', customer_id = ''c2'',
            created_at = ''2025-01-02'', due_date = ''2025-02-02'', total_amount = 700,
            inv_status = ''paid''\<rparr>"

definition st_ab :: invoices_state where
  "st_ab = \<lparr>invoices = [inv_a, inv_b], inv_loading = False, inv_error = JsString []\<rparr>"


definition chat_blank :: chat_state where
  "chat_blank = \<lparr>messages = [], inputMessage = ''   '', chat_loading = False\<rparr>"

definition chat_busy :: chat_state where
  "chat_busy = \<lparr>messages = [\<lparr>msg_role = User, msg_content = ''hi'', msg_timestamp = Some ''t0''\<rparr>],
                 inputMessage = ''again'', chat_loading = True\<rparr>"

definition gst_typed :: gst_state where
  "gst_typed = setGstin ''29ABCDE1234F1Z5'' gst_init"

definition gst_abc :: gst_state where
  "gst_abc = setGstin ''ABC'' gst_init"

definition gst_found :: gst_response where
  "gst_found = \<lparr>gr_gstin = ''29ABCDE1234F1Z5'', legal_name = ''ABC Corp'', trade_name = None,
                gr_status = ''Active'', gr_state = ''Karnataka'', address = None, verified = True\<rparr>"



section \<open>Auxiliary facts\<close>

text \<open>\<^verbatim>\<open>!s.trim()\<close> holds exactly when every character of \<open>s\<close> is white space.\<close>

lemma trim_empty_iff: "trim s = [] \<longleftrightarrow> (\<forall>c \<in> set s. is_ws c)"
proof -
  have "trim s = [] \<longleftrightarrow> dropWhile is_ws (rev (dropWhile is_ws s)) = []"
    by (simp add: trim_def)
  also have "\<dots> \<longleftrightarrow> (\<forall>c \<in> set (dropWhile is_ws s). is_ws c)"
    by (simp add: dropWhile_eq_Nil_conv)
  also have "\<dots> \<longleftrightarrow> (\<forall>c \<in> set s. is_ws c)"
  proof
    assume h: "\<forall>c \<in> set (dropWhile is_ws s). is_ws c"
    show "\<forall>c \<in> set s. is_ws c"
    proof (cases "dropWhile is_ws s")
      case Nil
      then show ?thesis by (simp add: dropWhile_eq_Nil_conv)
    next
      case (Cons x xs)
      then have "\<not> is_ws x" using hd_dropWhile [of is_ws s] by simp
      moreover have "x \<in> set (dropWhile is_ws s)" using Cons by simp
      ultimately show ?thesis using h by blast
    qed
  next
    assume "\<forall>c \<in> set s. is_ws c"
    then show "\<forall>c \<in> set (dropWhile is_ws s). is_ws c"
      using set_dropWhileD by fastforce
  qed
  finally show ?thesis .
qed


lemma js_or_truthy: "js_truthy b \<Longrightarrow> js_truthy (js_or a b)"
  by (simp add: js_or_def split: option.splits)




lemma trim_gstin: "trim ''29ABCDE1234F1Z5'' \<noteq> []"
  by (simp add: trim_empty_iff is_ws_def)


section \<open>The clients' interceptors\<close>

text \<open>
  C1, as amended: a response with status 401 received through \<^verbatim>\<open>apiClient\<close> removes the
  \<^verbatim>\<open>token\<close> entry from local storage and sets the location to \<^verbatim>\<open>/login\<close>, and a
  response with any other status leaves the browser unchanged; the settled promise is what
  axios produced. A response received through \<^verbatim>\<open>api\<close>, which registers no response
  interceptor, leaves the browser unchanged whatever its status.
\<close>

theorem apiClient_receive_401:
  "snd (apiClient_receive r b) =
     (if resp_status r = 401
      then b\<lparr>localStorage := (localStorage b)(''token'' := None), location_href := ''/login''\<rparr>
      else b)
   \<and> fst (apiClient_receive r b) = axios_settle r
   \<and> snd (api_receive r b) = b"
  by (simp add: apiClient_receive_def apiClient_response_interceptor_def axios_settle_def
      validateStatus_def apiClient_on_fulfilled_def apiClient_on_rejected_def removeItem_def
      api_receive_def)

text \<open>
  C1 as stated fails for \<^verbatim>\<open>api\<close>: after a 401 response the token is still stored and the
  location has not changed.
\<close>

theorem api_receive_401_counterexample:
  "localStorage (snd (api_receive \<lparr>resp_status = 401, resp_detail = None, resp_data = ()\<rparr>
       \<lparr>localStorage = [''token'' \<mapsto> ''abc''], location_href = ''/''\<rparr>)) ''token'' = Some ''abc''
   \<and> location_href (snd (api_receive \<lparr>resp_status = 401, resp_detail = None, resp_data = ()\<rparr>
       \<lparr>localStorage = [''token'' \<mapsto> ''abc''], location_href = ''/''\<rparr>)) = ''/''"
  by (simp add: api_receive_def)

text \<open>
  C2, as amended: when local storage holds a non-empty \<^verbatim>\<open>token\<close> value \<open>t\<close>, the request
  leaves either client's request interceptor with its Authorization header set to
  \<^verbatim>\<open>Bearer\<close>, a space and \<open>t\<close>, and is otherwise unchanged; when no token is stored, or the
  stored token is the empty string, the request is unchanged.
\<close>

theorem request_interceptor_bearer:
  "(ls ''token'' = Some t \<and> t \<noteq> [] \<longrightarrow>
      api_request_interceptor ls config =
        config\<lparr>cfg_headers := (cfg_headers config)(''Authorization'' \<mapsto> ''Bearer '' @ t)\<rparr>
      \<and> apiClient_request_interceptor ls config =
        config\<lparr>cfg_headers := (cfg_headers config)(''Authorization'' \<mapsto> ''Bearer '' @ t)\<rparr>)
   \<and> (ls ''token'' = None \<or> ls ''token'' = Some [] \<longrightarrow>
      api_request_interceptor ls config = config
      \<and> apiClient_request_interceptor ls config = config)"
  by (auto simp add: api_request_interceptor_def apiClient_request_interceptor_def getItem_def)

theorem request_interceptor_bearer_witness:
  "cfg_headers (api_request_interceptor [''token'' \<mapsto> ''abc''] cfg0) ''Authorization'' = Some ''Bearer abc''
   \<and> cfg_headers (apiClient_request_interceptor [''token'' \<mapsto> ''abc''] cfg0) ''Authorization'' = Some ''Bearer abc''
   \<and> api_request_interceptor Map.empty cfg0 = cfg0
   \<and> apiClient_request_interceptor Map.empty cfg0 = cfg0"
  using request_interceptor_bearer [of "[''token'' \<mapsto> ''abc'']" "''abc''" cfg0]
    request_interceptor_bearer [of Map.empty "''abc''" cfg0]
  by simp

text \<open>
  C2 as stated fails when the stored token is the empty string: the entry exists, and the
  request carries no Authorization header.
\<close>

theorem request_interceptor_empty_token_counterexample:
  "[''token'' \<mapsto> ''''] ''token'' = Some ''''
   \<and> cfg_headers (api_request_interceptor [''token'' \<mapsto> ''''] cfg0) ''Authorization'' = None
   \<and> cfg_headers (apiClient_request_interceptor [''token'' \<mapsto> ''''] cfg0) ''Authorization'' = None"
  by (simp add: api_request_interceptor_def apiClient_request_interceptor_def getItem_def cfg0_def)





section \<open>Failures of API calls\<close>




text \<open>
  A detail that is not a string is stored as the error and rendered as it is. For the list
  of objects of a validation error React throws when it renders the panel; the alert and
  the chat message show the text \<^verbatim>\<open>String\<close> makes of it.
\<close>

lemma structured_detail_is_rendered_as_is:
  "inv_error_panel (fst (loadInvoices (Inl validation_error) st_ab)) = RenderThrows"
  "gst_error_panel (fst (handleVerify (Inl validation_error) gst_typed)) = RenderThrows"
  "an_error_panel (fst (fetchDashboardData ls (Inl validation_error) (analytics_init :: unit analytics_state)))
     = RenderThrows"
  "snd (handleDelete True ''a'' (Inl validation_error) st_ab) =
     [Confirm ''Are you sure you want to delete this invoice?'', Request DELETE ''/invoices/a'' [] [],
      ConsoleError ''Error deleting invoice:'', Alert ''[object Object]'']"
  using trim_gstin
  by (simp_all add: loadInvoices_def loadInvoices_begin_def loadInvoices_resume_def
      handleVerify_def handleVerify_begin_def handleVerify_resume_def
      fetchDashboardData_def fetchDashboardData_begin_def fetchDashboardData_resume_def
      handleDelete_def handleDelete_begin_def handleDelete_resume_def
      inv_error_panel_def gst_error_panel_def an_error_panel_def render_panel_def
      js_or_def detail_def validation_error_def gst_typed_def setGstin_def gst_init_def
      analytics_init_def Let_def)

text \<open>
  The download of the component front end asks for a Blob, so its alert never shows a
  detail.
\<close>

lemma handleDownload_alert_is_fixed:
  "snd (handleDownload invoiceId invoiceNumber (Inl err) st) =
     [Request GET (''/invoices/'' @ invoiceId @ ''/download'') [] [],
      ConsoleError ''Error downloading invoice:'', Alert ''Failed to download invoice'']"
  by (simp add: handleDownload_def handleDownload_begin_def handleDownload_resume_def
      as_blob_def detail_def js_or_def split: option.splits)

section \<open>Deleting an invoice\<close>

text \<open>
  C4, as amended: deleting an invoice is delegated to the backend with one DELETE request
  for that id and followed, on success, by a local update of the list, not by a refetch.
  After a successful deletion that no other call of the component overlaps, the rendered
  list is the list rendered before without the invoices of that id; so it equals the list
  the backend would return, provided the rendered list equalled the backend's list before
  and the backend removed exactly the invoices of that id. Deletions that overlap are not
  covered.
\<close>

theorem handleDelete_delegates_then_filters:
  "handleDelete True ident (Inr ()) st =
     (st\<lparr>invoices := filter (\<lambda>inv. inv_id inv \<noteq> ident) (invoices st)\<rparr>,
      [Confirm ''Are you sure you want to delete this invoice?'',
       Request DELETE (''/invoices/'' @ ident) [] []])
   \<and> (invoices st = backend_before
        \<and> backend_after = filter (\<lambda>inv. inv_id inv \<noteq> ident) backend_before \<longrightarrow>
          invoices (fst (handleDelete True ident (Inr ()) st)) = backend_after)"
  by (simp add: handleDelete_def handleDelete_begin_def handleDelete_resume_def)

theorem handleDelete_delegates_then_filters_witness:
  "invoices st_ab = [inv_a, inv_b]
   \<and> [inv_b] = filter (\<lambda>inv. inv_id inv \<noteq> ''a'') [inv_a, inv_b]
   \<and> invoices (fst (handleDelete True ''a'' (Inr ()) st_ab)) = [inv_b]"
proof -
  have b: "invoices st_ab = [inv_a, inv_b]" by (simp add: st_ab_def)
  have f: "[inv_b] = filter (\<lambda>inv. inv_id inv \<noteq> ''a'') [inv_a, inv_b]"
    by (simp add: inv_a_def inv_b_def)
  from handleDelete_delegates_then_filters [of "''a''" st_ab "[inv_a, inv_b]" "[inv_b]"] b f
  show ?thesis by blast
qed

text \<open>
  C4 as stated fails: a successful delete issues the DELETE request and nothing else; the
  list endpoint is not called.
\<close>

theorem handleDelete_no_refetch_counterexample:
  "requests (snd (handleDelete True ''a'' (Inr ()) st_ab)) = [Request DELETE ''/invoices/a'' [] []]
   \<and> Request GET ''/invoices/list'' [] [] \<notin> set (snd (handleDelete True ''a'' (Inr ()) st_ab))"
  by (simp add: handleDelete_def handleDelete_begin_def handleDelete_resume_def requests_def)

text \<open>
  A run of \<^verbatim>\<open>handleDelete\<close> that nothing overlaps: on success the invoices with the
  confirmed id are gone and the others keep their order; a declined confirmation and a
  failed call leave the state as it was. With distinct ids, exactly one invoice goes.
\<close>

lemma handleDelete_uninterrupted:
  "invoices (fst (handleDelete True ident (Inr ()) st)) = filter (\<lambda>inv. inv_id inv \<noteq> ident) (invoices st)"
  "handleDelete False ident outcome st = (st, [Confirm ''Are you sure you want to delete this invoice?''])"
  "fst (handleDelete True ident (Inl err) st) = st"
  by (simp_all add: handleDelete_def handleDelete_begin_def handleDelete_resume_def)

lemma filter_removes_the_one:
  "distinct (map f xs) \<Longrightarrow> x \<in> set xs \<Longrightarrow>
     \<exists>ys zs. xs = ys @ x # zs \<and> filter (\<lambda>y. f y \<noteq> f x) xs = ys @ zs"
proof (induction xs)
  case Nil
  then show ?case by simp
next
  case (Cons a xs)
  show ?case
  proof (cases "a = x")
    case True
    with Cons.prems have "\<forall>y \<in> set xs. f y \<noteq> f x" by (auto simp add: image_iff)
    then have "filter (\<lambda>y. f y \<noteq> f x) xs = xs" by (simp add: filter_id_conv)
    with True show ?thesis by (intro exI [of _ "[]"] exI [of _ xs]) simp
  next
    case False
    with Cons.prems have xin: "x \<in> set xs" and d: "distinct (map f xs)" and fa: "f a \<noteq> f x"
      by auto
    from Cons.IH [OF d xin] obtain ys zs where
      "xs = ys @ x # zs" "filter (\<lambda>y. f y \<noteq> f x) xs = ys @ zs" by blast
    with fa show ?thesis by (intro exI [of _ "a # ys"] exI [of _ zs]) simp
  qed
qed

lemma handleDelete_uninterrupted_exactly_one:
  assumes "distinct (map inv_id (invoices st))" and "x \<in> set (invoices st)"
  shows "\<exists>ys zs. invoices st = ys @ x # zs
           \<and> invoices (fst (handleDelete True (inv_id x) (Inr ()) st)) = ys @ zs"
  using filter_removes_the_one [OF assms] by (simp add: handleDelete_uninterrupted(1))

text \<open>
  C8 at two overlapping runs. The list shows invoices \<open>a\<close> and \<open>b\<close>. The user confirms the
  deletion of \<open>a\<close> and, before that request settles, the deletion of \<open>b\<close>: both handlers
  captured the list \<open>[a, b]\<close>. When the first request succeeds the list becomes \<open>[b]\<close>;
  when the second succeeds the continuation filters the list it captured, and the list
  becomes \<open>[a]\<close>: the deleted invoice \<open>a\<close> is rendered again.
\<close>

theorem handleDelete_overlapping_runs:
  "fst (handleDelete_begin True ''a'' st_ab) = Some \<lparr>dc_invoices = [inv_a, inv_b], dc_id = ''a''\<rparr>
   \<and> fst (handleDelete_begin True ''b'' st_ab) = Some \<lparr>dc_invoices = [inv_a, inv_b], dc_id = ''b''\<rparr>
   \<and> invoices (fst (handleDelete_resume \<lparr>dc_invoices = [inv_a, inv_b], dc_id = ''a''\<rparr> (Inr ()) st_ab))
       = [inv_b]
   \<and> invoices (fst (handleDelete_resume \<lparr>dc_invoices = [inv_a, inv_b], dc_id = ''b''\<rparr> (Inr ())
        (fst (handleDelete_resume \<lparr>dc_invoices = [inv_a, inv_b], dc_id = ''a''\<rparr> (Inr ()) st_ab))))
       = [inv_a]"
  by (simp add: handleDelete_begin_def handleDelete_resume_def st_ab_def inv_a_def inv_b_def)

section \<open>The check on mount\<close>



text \<open>
  The first render of the routed shell: opened at a protected path it redirects to the
  login page before the check has run, whatever the token.
\<close>

lemma router_opened_at_protected_path:
  "path \<in> {''/dashboard'', ''/invoices'', ''/chat''} \<Longrightarrow>
     rendered (router_first_render path) = Navigate ''/login''
     \<and> rt_path (router_mount ls path) = ''/login''
     \<and> rendered (router_mount ls path) = LoginPage"
  by (auto simp add: router_mount_def router_first_render_def follow_navigate_def rendered_def
      route_def checkAuth_def)

section \<open>GST verification\<close>

text \<open>
  A value made of unreserved characters passes through the URL untouched: nothing is
  stripped, it holds no delimiter, and nothing in it is decoded.
\<close>

lemma unreserved_plain:
  assumes "unreserved c"
  shows "\<not> c0_or_space c" "\<not> tab_or_newline c" "c \<noteq> CHR ''#''" "c \<noteq> CHR ''?''"
    "c \<noteq> CHR ''&''" "c \<noteq> CHR ''=''" "c \<noteq> CHR ''+''" "c \<noteq> CHR ''%''" "\<not> is_ws c"
  using assms
  by (auto simp add: unreserved_def c0_or_space_def tab_or_newline_def is_ws_def Let_def)

lemma split_on_none: "\<forall>c \<in> set s. c \<noteq> sep \<Longrightarrow> split_on sep s = [s]"
  by (induction s) auto

lemma form_decode_plain: "\<forall>c \<in> set s. c \<noteq> CHR ''+'' \<and> c \<noteq> CHR ''%'' \<Longrightarrow> form_decode s = s"
  by (induction s) auto

lemma url_clean_gstin:
  assumes u: "\<forall>c \<in> set v. unreserved c" and ne: "v \<noteq> []"
  shows "url_clean (''/gst/verify?gstin='' @ v) = ''/gst/verify?gstin='' @ v"
proof -
  let ?u = "''/gst/verify?gstin='' @ v"
  have front: "dropWhile c0_or_space ?u = ?u"
    by (simp add: c0_or_space_def)
  have "hd (rev ?u) = last v" using ne by (simp add: hd_rev)
  moreover have "last v \<in> set v" using ne by simp
  ultimately have "\<not> c0_or_space (hd (rev ?u))" using u unreserved_plain(1) by metis
  then have rear: "dropWhile c0_or_space (rev ?u) = rev ?u"
    by (simp only: dropWhile_eq_self_iff) simp
  have "\<forall>c \<in> set ?u. \<not> tab_or_newline c"
    using u unreserved_plain(2) by (auto simp add: tab_or_newline_def)
  then have "filter (\<lambda>c. \<not> tab_or_newline c) ?u = ?u"
    by (simp only: filter_id_conv)
  with front rear show ?thesis by (simp only: url_clean_def rev_rev_ident)
qed

lemma url_query_gstin:
  assumes u: "\<forall>c \<in> set v. unreserved c"
  shows "url_query (''/gst/verify?gstin='' @ v) = ''gstin='' @ v"
proof -
  have "\<forall>c \<in> set (''/gst/verify?gstin='' @ v). c \<noteq> CHR ''#''"
    using u unreserved_plain(3) by auto
  then have "takeWhile (\<lambda>c. c \<noteq> CHR ''#'') (''/gst/verify?gstin='' @ v) = ''/gst/verify?gstin='' @ v"
    by (simp only: takeWhile_eq_all_conv)
  then show ?thesis by (simp add: url_query_def)
qed

lemma query_params_gstin:
  assumes u: "\<forall>c \<in> set v. unreserved c" and ne: "v \<noteq> []"
  shows "query_params (''/gst/verify?gstin='' @ v) = [(''gstin'', v)]"
proof -
  have s: "split_on (CHR ''&'') (''gstin='' @ v) = [''gstin='' @ v]"
    by (rule split_on_none) (use u unreserved_plain(5) in auto)
  have d: "form_decode v = v"
    by (rule form_decode_plain) (use u unreserved_plain(7,8) in auto)
  have p: "query_pair (''gstin='' @ v) = (''gstin'', v)"
    by (simp add: query_pair_def d)
  have "query_params (''/gst/verify?gstin='' @ v) =
      map query_pair (filter (\<lambda>p. p \<noteq> [])
        (split_on (CHR ''&'') (url_query (url_clean (''/gst/verify?gstin='' @ v)))))"
    by (simp only: query_params_def)
  also have "\<dots> = map query_pair (filter (\<lambda>p. p \<noteq> []) [''gstin='' @ v])"
    by (simp only: url_clean_gstin [OF u ne] url_query_gstin [OF u] s)
  also have "\<dots> = map query_pair [''gstin='' @ v]"
    by simp
  also have "\<dots> = [(''gstin'', v)]"
    by (simp only: list.map p)
  finally show ?thesis .
qed

lemma gstin_unreserved: "\<forall>c \<in> set ''29ABCDE1234F1Z5''. unreserved c"
  by (simp add: unreserved_def)

text \<open>
  C6, as amended: for every accepted submission the field's current value has at least
  one character that is not white space, and the request is a GET of
  \<^verbatim>\<open>/gst/verify?gstin=\<close> followed by that value, interpolated without encoding. When the
  value is made of letters, digits, \<^verbatim>\<open>-\<close>, \<^verbatim>\<open>.\<close>, \<^verbatim>\<open>_\<close> and \<^verbatim>\<open>~\<close> only, as a GSTIN is,
  the request carries exactly one query parameter, \<^verbatim>\<open>gstin\<close>, and its value is the field's
  value. The length of the value is not checked. What the parameter is for a value with
  other characters is not part of this statement.
\<close>

theorem handleVerify_sends_nonblank_gstin:
  "Request m u h d \<in> set (snd (handleVerify_begin st)) \<Longrightarrow>
     m = GET \<and> u = ''/gst/verify?gstin='' @ gstin st \<and> (\<exists>c \<in> set (gstin st). \<not> is_ws c)
     \<and> ((\<forall>c \<in> set (gstin st). unreserved c) \<longrightarrow> query_params u = [(''gstin'', gstin st)])"
proof -
  assume r: "Request m u h d \<in> set (snd (handleVerify_begin st))"
  then have nb: "trim (gstin st) \<noteq> []" and m: "m = GET" and u: "u = ''/gst/verify?gstin='' @ gstin st"
    by (auto simp add: handleVerify_begin_def split: if_splits)
  from nb have ex: "\<exists>c \<in> set (gstin st). \<not> is_ws c" by (simp add: trim_empty_iff)
  then have ne: "gstin st \<noteq> []" by auto
  have "(\<forall>c \<in> set (gstin st). unreserved c) \<longrightarrow> query_params u = [(''gstin'', gstin st)]"
    using query_params_gstin [OF _ ne] u by blast
  with m u ex show ?thesis by blast
qed

theorem handleVerify_sends_nonblank_gstin_witness:
  "Request GET ''/gst/verify?gstin=29ABCDE1234F1Z5'' [] [] \<in> set (snd (handleVerify_begin gst_typed))
   \<and> (\<exists>c \<in> set (gstin gst_typed). \<not> is_ws c)
   \<and> query_params ''/gst/verify?gstin=29ABCDE1234F1Z5'' = [(''gstin'', ''29ABCDE1234F1Z5'')]"
proof -
  have r: "Request GET ''/gst/verify?gstin=29ABCDE1234F1Z5'' [] [] \<in> set (snd (handleVerify_begin gst_typed))"
    using trim_gstin by (simp add: handleVerify_begin_def gst_typed_def setGstin_def gst_init_def)
  have g: "gstin gst_typed = ''29ABCDE1234F1Z5''"
    by (simp add: gst_typed_def setGstin_def)
  have a: "\<forall>c \<in> set (gstin gst_typed). unreserved c"
    using gstin_unreserved by (simp only: g)
  from handleVerify_sends_nonblank_gstin [OF r] a
  have "(\<exists>c \<in> set (gstin gst_typed). \<not> is_ws c)
    \<and> query_params ''/gst/verify?gstin=29ABCDE1234F1Z5'' = [(''gstin'', gstin gst_typed)]"
    by blast
  with r g show ?thesis by simp
qed

text \<open>
  C6 as stated fails: with \<^verbatim>\<open>ABC\<close> in the field the form is accepted and the request
  carries a \<^verbatim>\<open>gstin\<close> parameter of three characters.
\<close>

theorem handleVerify_short_gstin_counterexample:
  "snd (handleVerify_begin gst_abc) = [Request GET ''/gst/verify?gstin=ABC'' [] []]
   \<and> query_params ''/gst/verify?gstin=ABC'' = [(''gstin'', ''ABC'')]
   \<and> length ''ABC'' = 3"
  by (simp add: handleVerify_begin_def gst_abc_def setGstin_def gst_init_def trim_empty_iff is_ws_def
      query_params_def url_clean_def url_query_def query_pair_def c0_or_space_def tab_or_newline_def)

text \<open>
  Without encoding, a value with a character that means something to a URL does not
  arrive as typed: the fragment is cut off.
\<close>

lemma unencoded_value_is_cut:
  "query_params (''/gst/verify?gstin='' @ ''AB#C'') = [(''gstin'', ''AB'')]"
  "query_params (''/gst/verify?gstin='' @ ''#29ABCDE1234F1Z'') = [(''gstin'', [])]"
  by (simp_all add: query_params_def url_clean_def url_query_def query_pair_def
      c0_or_space_def tab_or_newline_def)

text \<open>
  The states the GST form can reach hold at most one request in flight; while one is in
  flight the form is loading with error and result cleared, and otherwise it is not
  loading and at most one of error and result is set.
\<close>

lemma gst_reachable_invariant:
  "gst_reachable st n \<Longrightarrow>
     n \<le> 1
     \<and> (n = 1 \<longrightarrow> gst_loading st \<and> gst_error st = JsString [] \<and> gst_result st = None)
     \<and> (n = 0 \<longrightarrow> \<not> gst_loading st \<and> (gst_error st = JsString [] \<or> gst_result st = None))"
proof (induction rule: gst_reachable.induct)
  case mount
  show ?case by (simp add: gst_init_def)
next
  case (change st n v)
  then have "n = 0" by (cases "n = 1") (auto simp add: gst_input_disabled_def)
  with change show ?case by (simp add: setGstin_def)
next
  case (submit st n)
  then have n0: "n = 0" by (cases "n = 1") (auto simp add: gst_button_disabled_def)
  from submit.hyps have "trim (gstin st) \<noteq> []" by (simp add: gst_button_disabled_def)
  with n0 show ?case by (simp add: handleVerify_begin_def)
next
  case (settle st n outcome)
  then have n0: "n = 0" and s: "gst_loading st" "gst_error st = JsString []" "gst_result st = None"
    by auto
  show ?case
  proof (cases outcome)
    case (Inl err)
    with n0 s show ?thesis by (simp add: handleVerify_resume_def)
  next
    case (Inr response)
    with n0 s show ?thesis by (simp add: handleVerify_resume_def)
  qed
qed

lemma gst_typed_reachable: "gst_reachable gst_typed 0"
  unfolding gst_typed_def
  by (rule gst_reachable.change [OF gst_reachable.mount])
    (simp add: gst_input_disabled_def gst_init_def)

lemma gst_pending_reachable: "gst_reachable (fst (handleVerify_begin gst_typed)) (Suc 0)"
proof -
  have nb: "\<not> gst_button_disabled gst_typed"
    using trim_gstin by (simp add: gst_button_disabled_def gst_typed_def setGstin_def gst_init_def)
  have one: "0 + length (snd (handleVerify_begin gst_typed)) = Suc 0"
    using trim_gstin by (simp add: handleVerify_begin_def gst_typed_def setGstin_def)
  from gst_reachable.submit [OF gst_typed_reachable nb] one show ?thesis by simp
qed

lemma verify_failure_sets_error:
  "js_truthy (gst_error (fst (handleVerify_resume (Inl err) st)))"
  "gst_error (fst (handleVerify_resume (Inl err) st)) \<noteq> JsString []"
proof -
  show t: "js_truthy (gst_error (fst (handleVerify_resume (Inl err) st)))"
    by (simp add: handleVerify_resume_def js_or_truthy)
  then show "gst_error (fst (handleVerify_resume (Inl err) st)) \<noteq> JsString []"
    by auto
qed

text \<open>
  C10: in every state the GST form can reach, at most one of the error message and the
  result is set, and at most one verification is in flight. When the request in flight
  settles, success leaves the result equal to the response and the error empty, and
  failure leaves the error set (not the empty string, and truthy, so the panel is
  rendered) and the result null. A verification that starts (the field is not blank)
  first clears both; run to its end it has the same outcome.
\<close>

theorem handleVerify_error_or_result:
  "(gst_reachable st n \<longrightarrow> n \<le> 1 \<and> (gst_error st = JsString [] \<or> gst_result st = None))
   \<and> (gst_reachable st (Suc n) \<longrightarrow>
        gst_result (fst (handleVerify_resume (Inr response) st)) = Some response
        \<and> gst_error (fst (handleVerify_resume (Inr response) st)) = JsString []
        \<and> gst_error (fst (handleVerify_resume (Inl err) st)) \<noteq> JsString []
        \<and> js_truthy (gst_error (fst (handleVerify_resume (Inl err) st)))
        \<and> gst_result (fst (handleVerify_resume (Inl err) st)) = None)
   \<and> (trim (gstin st') \<noteq> [] \<longrightarrow>
        gst_error (fst (handleVerify_begin st')) = JsString []
        \<and> gst_result (fst (handleVerify_begin st')) = None
        \<and> gst_result (fst (handleVerify (Inr response) st')) = Some response
        \<and> gst_error (fst (handleVerify (Inr response) st')) = JsString []
        \<and> gst_error (fst (handleVerify (Inl err) st')) \<noteq> JsString []
        \<and> js_truthy (gst_error (fst (handleVerify (Inl err) st')))
        \<and> gst_result (fst (handleVerify (Inl err) st')) = None)"
proof -
  have a: "gst_reachable st n \<longrightarrow> n \<le> 1 \<and> (gst_error st = JsString [] \<or> gst_result st = None)"
  proof
    assume r: "gst_reachable st n"
    from gst_reachable_invariant [OF r]
    show "n \<le> 1 \<and> (gst_error st = JsString [] \<or> gst_result st = None)"
      by (cases "n = 0") auto
  qed
  have b: "gst_reachable st (Suc n) \<longrightarrow>
        gst_result (fst (handleVerify_resume (Inr response) st)) = Some response
        \<and> gst_error (fst (handleVerify_resume (Inr response) st)) = JsString []
        \<and> gst_error (fst (handleVerify_resume (Inl err) st)) \<noteq> JsString []
        \<and> js_truthy (gst_error (fst (handleVerify_resume (Inl err) st)))
        \<and> gst_result (fst (handleVerify_resume (Inl err) st)) = None"
  proof
    assume r: "gst_reachable st (Suc n)"
    from gst_reachable_invariant [OF r] have c: "gst_error st = JsString []" "gst_result st = None"
      by auto
    have "gst_result (fst (handleVerify_resume (Inr response) st)) = Some response"
      and "gst_error (fst (handleVerify_resume (Inr response) st)) = JsString []"
      and "gst_result (fst (handleVerify_resume (Inl err) st)) = None"
      using c by (simp_all add: handleVerify_resume_def)
    with verify_failure_sets_error [of err st]
    show "gst_result (fst (handleVerify_resume (Inr response) st)) = Some response
        \<and> gst_error (fst (handleVerify_resume (Inr response) st)) = JsString []
        \<and> gst_error (fst (handleVerify_resume (Inl err) st)) \<noteq> JsString []
        \<and> js_truthy (gst_error (fst (handleVerify_resume (Inl err) st)))
        \<and> gst_result (fst (handleVerify_resume (Inl err) st)) = None"
      by blast
  qed
  have c: "trim (gstin st') \<noteq> [] \<longrightarrow>
        gst_error (fst (handleVerify_begin st')) = JsString []
        \<and> gst_result (fst (handleVerify_begin st')) = None
        \<and> gst_result (fst (handleVerify (Inr response) st')) = Some response
        \<and> gst_error (fst (handleVerify (Inr response) st')) = JsString []
        \<and> gst_error (fst (handleVerify (Inl err) st')) \<noteq> JsString []
        \<and> js_truthy (gst_error (fst (handleVerify (Inl err) st')))
        \<and> gst_result (fst (handleVerify (Inl err) st')) = None"
  proof
    assume nb: "trim (gstin st') \<noteq> []"
    let ?b = "fst (handleVerify_begin st')"
    have run: "\<And>outcome. fst (handleVerify outcome st') = fst (handleVerify_resume outcome ?b)"
      using nb by (simp add: handleVerify_def handleVerify_begin_def split: prod.splits)
    have cleared: "gst_error ?b = JsString []" "gst_result ?b = None"
      using nb by (simp_all add: handleVerify_begin_def)
    have "gst_result (fst (handleVerify_resume (Inr response) ?b)) = Some response"
      and "gst_error (fst (handleVerify_resume (Inr response) ?b)) = JsString []"
      and "gst_result (fst (handleVerify_resume (Inl err) ?b)) = None"
      using cleared by (simp_all add: handleVerify_resume_def)
    with cleared verify_failure_sets_error [of err ?b]
    show "gst_error (fst (handleVerify_begin st')) = JsString []
        \<and> gst_result (fst (handleVerify_begin st')) = None
        \<and> gst_result (fst (handleVerify (Inr response) st')) = Some response
        \<and> gst_error (fst (handleVerify (Inr response) st')) = JsString []
        \<and> gst_error (fst (handleVerify (Inl err) st')) \<noteq> JsString []
        \<and> js_truthy (gst_error (fst (handleVerify (Inl err) st')))
        \<and> gst_result (fst (handleVerify (Inl err) st')) = None"
      by (simp only: run) blast
  qed
  from a b c show ?thesis by blast
qed

theorem handleVerify_error_or_result_witness:
  "gst_reachable gst_typed 0
   \<and> (gst_error gst_typed = JsString [] \<or> gst_result gst_typed = None)
   \<and> gst_reachable (fst (handleVerify_begin gst_typed)) (Suc 0)
   \<and> gst_result (fst (handleVerify_resume (Inr gst_found) (fst (handleVerify_begin gst_typed)))) = Some gst_found
   \<and> gst_error (fst (handleVerify_resume (Inr gst_found) (fst (handleVerify_begin gst_typed)))) = JsString []
   \<and> gst_error (fst (handleVerify_resume (Inl network_error) (fst (handleVerify_begin gst_typed)))) \<noteq> JsString []
   \<and> gst_result (fst (handleVerify_resume (Inl network_error) (fst (handleVerify_begin gst_typed)))) = None
   \<and> trim (gstin gst_typed) \<noteq> []
   \<and> gst_result (fst (handleVerify (Inr gst_found) gst_typed)) = Some gst_found
   \<and> gst_error (fst (handleVerify (Inl network_error) gst_typed)) \<noteq> JsString []"
proof -
  have t: "trim (gstin gst_typed) \<noteq> []"
    using trim_gstin by (simp add: gst_typed_def setGstin_def)
  note at_rest = handleVerify_error_or_result
    [of gst_typed 0 gst_found network_error gst_typed]
  note in_flight = handleVerify_error_or_result
    [of "fst (handleVerify_begin gst_typed)" 0 gst_found network_error gst_typed]
  from at_rest gst_typed_reachable
  have 1: "gst_error gst_typed = JsString [] \<or> gst_result gst_typed = None" by simp
  from in_flight gst_pending_reachable
  have 2: "gst_result (fst (handleVerify_resume (Inr gst_found) (fst (handleVerify_begin gst_typed)))) = Some gst_found
   \<and> gst_error (fst (handleVerify_resume (Inr gst_found) (fst (handleVerify_begin gst_typed)))) = JsString []
   \<and> gst_error (fst (handleVerify_resume (Inl network_error) (fst (handleVerify_begin gst_typed)))) \<noteq> JsString []
   \<and> gst_result (fst (handleVerify_resume (Inl network_error) (fst (handleVerify_begin gst_typed)))) = None"
    by simp
  from at_rest t
  have 3: "gst_result (fst (handleVerify (Inr gst_found) gst_typed)) = Some gst_found
   \<and> gst_error (fst (handleVerify (Inl network_error) gst_typed)) \<noteq> JsString []"
    by simp
  from gst_typed_reachable gst_pending_reachable t 1 2 3 show ?thesis by simp
qed

section \<open>The chat form\<close>

text \<open>
  C9: submitting the chat form while the input is empty or all white space, or while a
  query is loading, issues no request and leaves the messages, the input and the loading
  flag as they were: the handler returns the state unchanged and does nothing else.
\<close>

theorem handleSendMessage_guard:
  "(\<forall>c \<in> set (inputMessage st). is_ws c) \<or> chat_loading st \<Longrightarrow>
     handleSendMessage_begin now st = (st, []) \<and> handleSendMessage now1 now2 outcome st = (st, [])"
  by (simp add: handleSendMessage_def handleSendMessage_begin_def trim_empty_iff)

theorem handleSendMessage_guard_witness:
  "handleSendMessage ''t1'' ''t2'' (Inr \<lparr>cr_response = Some ''ok'', cr_reply = None\<rparr>) chat_blank = (chat_blank, [])
   \<and> handleSendMessage ''t1'' ''t2'' (Inr \<lparr>cr_response = Some ''ok'', cr_reply = None\<rparr>) chat_busy = (chat_busy, [])"
proof -
  have b: "\<forall>c \<in> set (inputMessage chat_blank). is_ws c"
    by (simp add: chat_blank_def is_ws_def)
  have l: "chat_loading chat_busy" by (simp add: chat_busy_def)
  from handleSendMessage_guard [of chat_blank] b handleSendMessage_guard [of chat_busy] l
  show ?thesis by blast
qed

section \<open>Requests, failures and what follows them\<close>











































end
